theory Spec2Isabelle
  imports Complex_Main "HOL-Library.Word"
begin

section \<open>Host values\<close>

text \<open>
  The component lives in \<^verbatim>\<open>src/components/VideoGenerator.tsx\<close>. JavaScript numbers are
  modelled as mathematical reals: \<open>+\<close>, \<open>*\<close>, \<open>/\<close>, \<open>Math.sin\<close>, \<open>Math.floor\<close>,
  \<open>Math.min\<close> and \<open>Math.max\<close> are the exact operations, without the rounding of IEEE
  doubles and without \<open>NaN\<close> or \<open>Infinity\<close>. A division by zero, which yields \<open>NaN\<close> or
  \<open>Infinity\<close> in the source, is therefore outside the model; the statements below whose
  conclusion depends on a quotient assume a non-zero divisor.

  A JavaScript string is a sequence of UTF-16 code units.
\<close>

type_synonym code_unit = "16 word"
type_synonym jsstring = "code_unit list"

definition js_lit :: "string \<Rightarrow> jsstring" where
  "js_lit s = map of_char s"

text \<open>
  \<open>String.prototype.trim\<close> removes the ECMAScript \<open>WhiteSpace\<close> and \<open>LineTerminator\<close>
  code points from both ends.
\<close>

definition is_white :: "code_unit \<Rightarrow> bool" where
  "is_white c \<longleftrightarrow> c \<in> set [0x9, 0xA, 0xB, 0xC, 0xD, 0x20, 0xA0, 0x1680,
      0x2000, 0x2001, 0x2002, 0x2003, 0x2004, 0x2005, 0x2006, 0x2007, 0x2008, 0x2009, 0x200A,
      0x2028, 0x2029, 0x202F, 0x205F, 0x3000, 0xFEFF]"

definition trim :: "jsstring \<Rightarrow> jsstring" where
  "trim s = rev (dropWhile is_white (rev (dropWhile is_white s)))"

text \<open>\<open>a || b\<close> on strings: the empty string is the only falsy string.\<close>

definition or_else :: "jsstring \<Rightarrow> jsstring \<Rightarrow> jsstring" where
  "or_else a b = (if a \<noteq> [] then a else b)"

text \<open>
  The remainder operator \<open>%\<close>: the result has the sign of the dividend, that is
  \<open>a - n * trunc (a / n)\<close>. (\<open>n = 0\<close> gives \<open>NaN\<close> in the source and is outside the model.)
\<close>

definition js_trunc :: "real \<Rightarrow> int" where
  "js_trunc x = (if x < 0 then \<lceil>x\<rceil> else \<lfloor>x\<rfloor>)"

definition js_rem :: "real \<Rightarrow> real \<Rightarrow> real" where
  "js_rem a n = a - n * of_int (js_trunc (a / n))"

section \<open>Resolution presets\<close>

datatype ResolutionKey = R720p | R1080p | Square

fun RESOLUTION_MAP :: "ResolutionKey \<Rightarrow> real \<times> real" where
  "RESOLUTION_MAP R720p = (1280, 720)"
| "RESOLUTION_MAP R1080p = (1920, 1080)"
| "RESOLUTION_MAP Square = (1080, 1080)"

section \<open>The drawing surface\<close>

text \<open>
  A frame is the sequence of calls made on the 2D context, in order. A colour built by a
  template literal keeps its interpolated numbers (\<open>Rgba\<close>, \<open>Hsla\<close>); a colour written
  as a string constant is kept as that string (\<open>Css\<close>).
\<close>

datatype css_color =
    Rgba real real real real
  | Hsla real real real real
  | Css string

datatype draw_cmd =
    CreateLinearGradient real real real real
  | CreateRadialGradient real real real real real real
  | AddColorStop real css_color
  | SetFillStyleGradient
  | SetFillStyle css_color
  | FillRect real real real real
  | BeginPath
  | Arc real real real real real
  | Fill
  | SetTextAlign string
  | SetFont int string
  | SetShadowColor css_color
  | SetShadowBlur real
  | FillText jsstring real real
  | SetLineWidth real
  | SetStrokeStyle css_color
  | StrokeRect real real real real

section \<open>drawFrame\<close>

text \<open>The three values \<open>a\<close>, \<open>b\<close>, \<open>c\<close> of the Aurora branch (lines 54 to 56).\<close>

definition aurora_a :: "real \<Rightarrow> real" where
  "aurora_a t = sin (t * 0.0006) * 0.5 + 0.5"

definition aurora_b :: "real \<Rightarrow> real" where
  "aurora_b t = sin (t * 0.0009 + 1.2) * 0.5 + 0.5"

definition aurora_c :: "real \<Rightarrow> real" where
  "aurora_c t = sin (t * 0.0007 + 2.7) * 0.5 + 0.5"

definition draw_aurora :: "real \<Rightarrow> real \<Rightarrow> real \<Rightarrow> draw_cmd list" where
  "draw_aurora width height t =
     (let a = aurora_a t;
          b = aurora_b t;
          c = aurora_c t
      in [CreateLinearGradient 0 0 width height,
          AddColorStop 0 (Rgba (of_int \<lfloor>40 + 80 * a\<rfloor>) 80 255 0.9),
          AddColorStop 1 (Rgba 10 (of_int \<lfloor>40 + 140 * b\<rfloor>) 120 0.9),
          SetFillStyleGradient,
          FillRect 0 0 width height])"

text \<open>The Particles branch: \<open>rnd\<close> (line 64) and the body of the loop (lines 68 to 76).\<close>

definition rnd :: "real \<Rightarrow> real" where
  "rnd seed = \<bar>sin (seed * 9999.91)\<bar>"

definition particle_s :: "real \<Rightarrow> nat \<Rightarrow> real" where
  "particle_s t i = of_nat i * 13.37 + t * 0.12"

definition particle_x :: "real \<Rightarrow> real \<Rightarrow> nat \<Rightarrow> real" where
  "particle_x width t i = js_rem (rnd (particle_s t i) * width) width"

definition particle_y :: "real \<Rightarrow> real \<Rightarrow> nat \<Rightarrow> real" where
  "particle_y height t i = js_rem (rnd (particle_s t i + 42) * height) height"

definition particle_r :: "real \<Rightarrow> nat \<Rightarrow> real" where
  "particle_r t i = 0.5 + rnd (particle_s t i + 99) * 2.5"

definition particle_hue :: "real \<Rightarrow> nat \<Rightarrow> real" where
  "particle_hue t i = of_int \<lfloor>200 + 55 * rnd (particle_s t i + 7)\<rfloor>"

definition draw_particle :: "real \<Rightarrow> real \<Rightarrow> real \<Rightarrow> nat \<Rightarrow> draw_cmd list" where
  "draw_particle width height t i =
     [SetFillStyle (Hsla (particle_hue t i) 80 65 0.8),
      BeginPath,
      Arc (particle_x width t i) (particle_y height t i) (particle_r t i) 0 (pi * 2),
      Fill]"

definition draw_particles :: "real \<Rightarrow> real \<Rightarrow> real \<Rightarrow> draw_cmd list" where
  "draw_particles width height t =
     [SetFillStyle (Css ''#030614''), FillRect 0 0 width height]
     @ concat (map (draw_particle width height t) [0..<300])"

text \<open>The last branch, "Gradient waves" (lines 80 to 92).\<close>

definition waves_p :: "real \<Rightarrow> real \<Rightarrow> real" where
  "waves_p t v = sin (t * 0.0005 + v) * 0.5 + 0.5"

definition draw_waves :: "real \<Rightarrow> real \<Rightarrow> real \<Rightarrow> draw_cmd list" where
  "draw_waves width height t =
     [CreateRadialGradient (width * 0.2) (height * 0.2) 50 (width * 0.5) (height * 0.6)
        (max width height),
      AddColorStop 0 (Rgba 20 (80 + 100 * waves_p t 0) 255 0.8),
      AddColorStop 1 (Rgba 5 10 (60 + 120 * waves_p t 1.3) 1),
      SetFillStyleGradient,
      FillRect 0 0 width height]"

text \<open>The text overlay (lines 96 to 118) and the border (lines 121 to 124).\<close>

definition font_family :: string where
  "font_family = ''px ui-sans-serif, system-ui, -apple-system''"

definition draw_title :: "real \<Rightarrow> real \<Rightarrow> jsstring \<Rightarrow> real \<Rightarrow> draw_cmd list" where
  "draw_title width height prompt t =
     (let title = or_else (trim prompt) (js_lit ''Your animated title'');
          centerX = width / 2;
          centerY = height / 2;
          wobble = sin (t * 0.003) * 6
      in [SetTextAlign ''center'',
          SetFont \<lfloor>min width height * 0.07\<rfloor> font_family,
          SetFillStyle (Css ''#ffffff''),
          SetShadowColor (Css ''rgba(0,0,0,0.5)''),
          SetShadowBlur 20,
          FillText title centerX (centerY + wobble)])"

definition draw_subtitle :: "real \<Rightarrow> real \<Rightarrow> jsstring \<Rightarrow> real \<Rightarrow> draw_cmd list" where
  "draw_subtitle width height subtitle t =
     (let sub = trim subtitle;
          centerX = width / 2;
          centerY = height / 2;
          wobble = sin (t * 0.003) * 6
      in if sub \<noteq> [] then
           [SetFont \<lfloor>min width height * 0.03\<rfloor> font_family,
            SetFillStyle (Css ''#cfe3ff''),
            SetShadowBlur 10,
            FillText sub centerX (centerY + 40 + wobble * 0.5)]
         else [])"

definition draw_border :: "real \<Rightarrow> real \<Rightarrow> draw_cmd list" where
  "draw_border width height =
     [SetShadowBlur 0,
      SetLineWidth 2,
      SetStrokeStyle (Css ''rgba(255,255,255,0.12)''),
      StrokeRect 12 12 (width - 24) (height - 24)]"

text \<open>
  \<open>drawFrame\<close> closes over \<open>bgStyle\<close>, \<open>height\<close>, \<open>prompt\<close>, \<open>subtitle\<close> and \<open>width\<close> (its
  dependency array); they are its first arguments here, followed by the time \<open>t\<close>.
\<close>

definition drawFrame ::
  "real \<Rightarrow> real \<Rightarrow> string \<Rightarrow> jsstring \<Rightarrow> jsstring \<Rightarrow> real \<Rightarrow> draw_cmd list" where
  "drawFrame width height bgStyle prompt subtitle t =
     (if bgStyle = ''Aurora'' then draw_aurora width height t
      else if bgStyle = ''Particles'' then draw_particles width height t
      else draw_waves width height t)
     @ draw_title width height prompt t
     @ draw_subtitle width height subtitle t
     @ draw_border width height"

text \<open>The text drawn by a frame: the strings of its \<open>fillText\<close> calls, in order.\<close>

fun texts_of :: "draw_cmd list \<Rightarrow> jsstring list" where
  "texts_of [] = []"
| "texts_of (FillText s x y # cs) = s # texts_of cs"
| "texts_of (c # cs) = texts_of cs"

fun arcs_of :: "draw_cmd list \<Rightarrow> (real \<times> real \<times> real) list" where
  "arcs_of [] = []"
| "arcs_of (Arc x y r a0 a1 # cs) = (x, y, r) # arcs_of cs"
| "arcs_of (c # cs) = arcs_of cs"

section \<open>The component: state, refs and host\<close>

text \<open>
  Encoded chunks and the final artifact are \<open>Blob\<close>s: a byte sequence with a type tag.
  \<open>blob.size\<close> is the number of bytes, and \<open>new Blob(parts, {type})\<close> concatenates the
  parts in order.
\<close>

record blob =
  blob_bytes :: "8 word list"
  blob_type :: string

definition blob_size :: "blob \<Rightarrow> nat" where
  "blob_size b = length (blob_bytes b)"

definition new_Blob :: "blob list \<Rightarrow> string \<Rightarrow> blob" where
  "new_Blob parts ty = \<lparr>blob_bytes = concat (map blob_bytes parts), blob_type = ty\<rparr>"

text \<open>
  The \<open>MediaRecorder\<close>: the options it was constructed with (\<open>None\<close> for \<open>undefined\<close>, the
  host's default format), its \<open>mimeType\<close> property and whether it is recording.
\<close>

record recorder_options =
  mimeType :: string
  videoBitsPerSecond :: real

record media_recorder =
  mr_options :: "recorder_options option"
  mr_mimeType :: string
  mr_active :: bool

text \<open>
  What the host answers: \<open>MediaRecorder.isTypeSupported\<close>, the \<open>mimeType\<close> property of a
  recorder constructed without options, and whether \<open>canvas.getContext("2d")\<close> returns a
  context.
\<close>

record host =
  isTypeSupported :: "string \<Rightarrow> bool"
  default_mimeType :: string
  getContext_2d :: bool

text \<open>
  The closure of one \<open>step\<close> callback (lines 131 to 146): the \<open>drawFrame\<close> and
  \<open>isRecording\<close> that \<open>animate\<close> captured from its render, and the \<open>totalMs\<close> it was
  called with.
\<close>

record step_closure =
  sc_drawFrame :: "real \<Rightarrow> draw_cmd list"
  sc_totalMs :: real
  sc_isRecording :: bool

text \<open>Calls on the host that leave a trace, oldest first.\<close>

datatype effect =
    RevokeObjectURL nat
  | CreateObjectURL nat blob
  | CaptureStream real
  | NewMediaRecorder "recorder_options option"
  | RecorderStart real
  | RecorderStop
  | RequestAnimationFrame nat
  | CancelAnimationFrame nat
  | Draw "draw_cmd list"
  | VideoLoad nat

text \<open>
  The refs and state variables of \<open>VideoGenerator\<close> (lines 22 to 38), followed by the
  host's side: the frame callbacks waiting to fire, the next fresh handle (object URLs and
  frame request ids), the \<open>src\<close> of the video element and the trace of effects. A state
  setter is modelled as an update of the record.
\<close>

record component =
  canvasRef :: bool
  videoRef :: bool
  mediaRecorderRef :: "media_recorder option"
  chunksRef :: "blob list"
  rafRef :: "nat option"
  startTimeRef :: real
  prompt :: jsstring
  subtitle :: jsstring
  duration :: real
  fps :: real
  resolutionKey :: ResolutionKey
  bgStyle :: string
  isRecording :: bool
  progress :: real
  blobUrl :: "nat option"
  blobSize :: nat
  frame_queue :: "(nat \<times> step_closure) list"
  next_handle :: nat
  video_src :: "nat option"
  effects :: "effect list"

text \<open>The component as first mounted: the initial values of lines 25 to 38.\<close>

definition initial_component :: component where
  "initial_component =
     \<lparr>canvasRef = True, videoRef = True, mediaRecorderRef = None, chunksRef = [],
      rafRef = None, startTimeRef = 0,
      prompt = js_lit ''A serene sunrise over mountains with floating particles'',
      subtitle = js_lit ''Generated locally with Canvas + WebM'',
      duration = 5, fps = 30, resolutionKey = R720p, bgStyle = ''Aurora'',
      isRecording = False, progress = 0, blobUrl = None, blobSize = 0,
      frame_queue = [], next_handle = 1, video_src = None, effects = []\<rparr>"

definition width :: "component \<Rightarrow> real" where
  "width st = fst (RESOLUTION_MAP (resolutionKey st))"

definition height :: "component \<Rightarrow> real" where
  "height st = snd (RESOLUTION_MAP (resolutionKey st))"

text \<open>The \<open>drawFrame\<close> callback of the current render.\<close>

definition drawFrame_of :: "component \<Rightarrow> real \<Rightarrow> draw_cmd list" where
  "drawFrame_of st = drawFrame (width st) (height st) (bgStyle st) (prompt st) (subtitle st)"

definition emit :: "effect \<Rightarrow> component \<Rightarrow> component" where
  "emit e st = st\<lparr>effects := effects st @ [e]\<rparr>"

text \<open>\<open>rafRef.current = requestAnimationFrame(step)\<close>.\<close>

definition request_frame :: "step_closure \<Rightarrow> component \<Rightarrow> component" where
  "request_frame c st =
     (let n = next_handle st
      in emit (RequestAnimationFrame n)
           (st\<lparr>rafRef := Some n, frame_queue := frame_queue st @ [(n, c)],
               next_handle := Suc n\<rparr>))"

text \<open>\<open>if (rafRef.current) cancelAnimationFrame(rafRef.current)\<close>; request ids are non-zero.\<close>

definition cancel_frame :: "component \<Rightarrow> component" where
  "cancel_frame st =
     (case rafRef st of
        None \<Rightarrow> st
      | Some n \<Rightarrow>
          if n \<noteq> 0
          then emit (CancelAnimationFrame n)
                 (st\<lparr>frame_queue := filter (\<lambda>(m, c). m \<noteq> n) (frame_queue st)\<rparr>)
          else st)"

text \<open>
  \<open>try { mediaRecorderRef.current?.stop(); } catch {}\<close>: stopping an inactive recorder
  throws, and the exception is swallowed.
\<close>

definition stop_recorder :: "component \<Rightarrow> component" where
  "stop_recorder st =
     (case mediaRecorderRef st of
        None \<Rightarrow> st
      | Some mr \<Rightarrow>
          if mr_active mr
          then emit RecorderStop (st\<lparr>mediaRecorderRef := Some (mr\<lparr>mr_active := False\<rparr>)\<rparr>)
          else st)"

section \<open>animate and step\<close>

definition step :: "step_closure \<Rightarrow> real \<Rightarrow> component \<Rightarrow> component" where
  "step c now st =
     (let elapsed = now - startTimeRef st;
          clamped = min elapsed (sc_totalMs c);
          st1 = st\<lparr>progress := clamped / sc_totalMs c * 100\<rparr>;
          st2 = emit (Draw (sc_drawFrame c now)) st1
      in if elapsed < sc_totalMs c \<and> sc_isRecording c
         then request_frame c st2
         else (stop_recorder (cancel_frame st2))\<lparr>isRecording := False\<rparr>)"

text \<open>
  \<open>animate\<close> (lines 129 to 151) builds \<open>step\<close> over the \<open>drawFrame\<close> and \<open>isRecording\<close> of
  the render it belongs to and requests the first frame. The unused parameter
  \<open>frameIntervalMs\<close> is left out.
\<close>

definition animate :: "component \<Rightarrow> real \<Rightarrow> component \<Rightarrow> component" where
  "animate render totalMs st =
     request_frame
       \<lparr>sc_drawFrame = drawFrame_of render, sc_totalMs = totalMs,
        sc_isRecording = isRecording render\<rparr> st"

text \<open>The host fires the oldest waiting frame callback at time \<open>now\<close>.\<close>

definition fire_frame :: "real \<Rightarrow> component \<Rightarrow> component" where
  "fire_frame now st =
     (case frame_queue st of
        [] \<Rightarrow> st
      | (n, c) # rest \<Rightarrow> step c now (st\<lparr>frame_queue := rest\<rparr>))"

text \<open>
  The states after each tick of a run: the host fires a callback at each of the given
  times for as long as one is waiting.
\<close>

fun run_frames :: "real list \<Rightarrow> component \<Rightarrow> component list" where
  "run_frames [] st = []"
| "run_frames (now # nows) st =
     (if frame_queue st = [] then []
      else fire_frame now st # run_frames nows (fire_frame now st))"

section \<open>startRecording and the recorder's handlers\<close>

definition mimeTypes :: "string list" where
  "mimeTypes = [''video/webm;codecs=vp9'', ''video/webm;codecs=vp8'', ''video/webm'',
     ''video/mp4'']"

text \<open>\<open>new MediaRecorder(stream, options)\<close>.\<close>

definition new_MediaRecorder :: "host \<Rightarrow> recorder_options option \<Rightarrow> media_recorder" where
  "new_MediaRecorder h opts =
     \<lparr>mr_options = opts,
      mr_mimeType = (case opts of None \<Rightarrow> default_mimeType h | Some p \<Rightarrow> mimeType p),
      mr_active = False\<rparr>"

text \<open>The reset of lines 158 to 162.\<close>

definition reset_artifact :: "component \<Rightarrow> component" where
  "reset_artifact st =
     (case blobUrl st of
        None \<Rightarrow> st
      | Some u \<Rightarrow> emit (RevokeObjectURL u) st)\<lparr>blobUrl := None, blobSize := 0\<rparr>"

text \<open>
  \<open>startRecording\<close> (lines 153 to 204), called at time \<open>now\<close> (the value of
  \<open>performance.now()\<close>). Its \<open>isRecording\<close>, \<open>fps\<close>, \<open>duration\<close> and \<open>animate\<close> are those of
  the render \<open>st\<close> it is called in. This is the handler alone; the render that follows
  it, with the effect cleanup a change of \<open>blobUrl\<close> triggers, is \<open>rerender\<close> below.
\<close>

definition startRecording :: "host \<Rightarrow> real \<Rightarrow> component \<Rightarrow> component" where
  "startRecording h now st =
     (if \<not> canvasRef st then st
      else if isRecording st then st
      else
        let st1 = emit (CaptureStream (fps st)) (reset_artifact st);
            st2 = st1\<lparr>chunksRef := []\<rparr>;
            supported = find (isTypeSupported h) mimeTypes;
            opts = (case supported of
                      Some m \<Rightarrow> Some \<lparr>mimeType = m, videoBitsPerSecond = 6000000\<rparr>
                    | None \<Rightarrow> None);
            mr = new_MediaRecorder h opts;
            st3 = (emit (NewMediaRecorder opts) st2)\<lparr>mediaRecorderRef := Some mr\<rparr>;
            st4 = st3\<lparr>isRecording := True, progress := 0\<rparr>;
            totalMs = duration st * 1000;
            st5 = st4\<lparr>startTimeRef := now\<rparr>
        in if \<not> getContext_2d h then st5
           else animate st totalMs
                  ((emit (RecorderStart (max (1000 / fps st) 16)) st5)
                     \<lparr>mediaRecorderRef := Some (mr\<lparr>mr_active := True\<rparr>)\<rparr>))"

text \<open>\<open>mr.ondataavailable\<close> (lines 178 to 182); \<open>e.data\<close> may be null.\<close>

definition ondataavailable :: "blob option \<Rightarrow> component \<Rightarrow> component" where
  "ondataavailable data st =
     (case data of
        None \<Rightarrow> st
      | Some d \<Rightarrow> if blob_size d > 0 then st\<lparr>chunksRef := chunksRef st @ [d]\<rparr> else st)"

text \<open>A sequence of chunk events, delivered in order.\<close>

fun deliver :: "blob option list \<Rightarrow> component \<Rightarrow> component" where
  "deliver [] st = st"
| "deliver (e # es) st = deliver es (ondataavailable e st)"

text \<open>\<open>mr.onstop\<close> (lines 183 to 192) of the recorder \<open>mr\<close>.\<close>

definition onstop :: "media_recorder \<Rightarrow> component \<Rightarrow> component" where
  "onstop mr st =
     (let b = new_Blob (chunksRef st)
                (if mr_mimeType mr \<noteq> [] then mr_mimeType mr else ''video/webm'');
          url = next_handle st;
          st1 = (emit (CreateObjectURL url b) st)\<lparr>next_handle := Suc url\<rparr>;
          st2 = st1\<lparr>blobUrl := Some url, blobSize := blob_size b\<rparr>
      in if videoRef st then (emit (VideoLoad url) st2)\<lparr>video_src := Some url\<rparr> else st2)"

section \<open>The effect keyed on blobUrl\<close>

text \<open>
  The cleanup returned by the effect of lines 214 to 220, for a render whose \<open>blobUrl\<close>
  was \<open>u\<close>: it cancels the frame request in \<open>rafRef\<close>, stops the recorder in
  \<open>mediaRecorderRef\<close> and revokes \<open>u\<close>. Both refs are read when the cleanup runs.
\<close>

definition effect_cleanup :: "nat option \<Rightarrow> component \<Rightarrow> component" where
  "effect_cleanup u st =
     (let st1 = stop_recorder (cancel_frame st)
      in case u of
           None \<Rightarrow> st1
         | Some x \<Rightarrow> emit (RevokeObjectURL x) st1)"

text \<open>
  The render that follows a handler: \<open>old\<close> is the render the handler ran in and \<open>st\<close> the
  state it left. The effect has the dependency array \<open>[blobUrl]\<close>, so the cleanup of the
  old render runs when \<open>blobUrl\<close> has changed.
\<close>

definition rerender :: "component \<Rightarrow> component \<Rightarrow> component" where
  "rerender old st =
     (if blobUrl st \<noteq> blobUrl old then effect_cleanup (blobUrl old) st else st)"

text \<open>A click on "Generate Video" (line 268): \<open>startRecording\<close>, then the next render.\<close>

definition click_generate :: "host \<Rightarrow> real \<Rightarrow> component \<Rightarrow> component" where
  "click_generate h now st = rerender st (startRecording h now st)"

section \<open>Example hosts and states\<close>

text \<open>A host that supports every listed type but mp4, and one that supports none.\<close>

definition webm_host :: host where
  "webm_host =
     \<lparr>isTypeSupported = (\<lambda>m. m \<noteq> ''video/mp4''), default_mimeType = ''video/webm'',
      getContext_2d = True\<rparr>"

definition no_codec_host :: host where
  "no_codec_host =
     \<lparr>isTypeSupported = (\<lambda>m. False), default_mimeType = ''video/x-matroska'',
      getContext_2d = True\<rparr>"

text \<open>The step closure of a five second recording started from the initial render.\<close>

definition initial_step :: step_closure where
  "initial_step =
     \<lparr>sc_drawFrame = drawFrame_of initial_component, sc_totalMs = 5000,
      sc_isRecording = False\<rparr>"

definition chunk_a :: blob where
  "chunk_a = \<lparr>blob_bytes = [0x1A, 0x45, 0xDF, 0xA3], blob_type = ''video/webm''\<rparr>"

definition chunk_b :: blob where
  "chunk_b = \<lparr>blob_bytes = [0x1F, 0x43], blob_type = ''video/webm''\<rparr>"

definition chunk_empty :: blob where
  "chunk_empty = \<lparr>blob_bytes = [], blob_type = ''video/webm''\<rparr>"

section \<open>Facts about the host values\<close>

lemma trim_empty_iff: "trim s = [] \<longleftrightarrow> (\<forall>c\<in>set s. is_white c)"
proof (cases "dropWhile is_white s")
  case Nil
  then have all: "\<forall>c\<in>set s. is_white c" by (simp add: dropWhile_eq_Nil_conv)
  show ?thesis unfolding trim_def Nil using all by simp
next
  case (Cons x xs)
  then have nw: "\<not> is_white x" using hd_dropWhile[of is_white s] by simp
  have "x \<in> set (rev (dropWhile is_white s))" using Cons by simp
  then have "dropWhile is_white (rev (dropWhile is_white s)) \<noteq> []"
    using nw by (auto simp: dropWhile_eq_Nil_conv simp del: set_rev)
  then have "trim s \<noteq> []"
    unfolding trim_def by (simp only: rev_is_Nil_conv not_False_eq_True)
  moreover have "\<not> (\<forall>c\<in>set s. is_white c)"
    using Cons by (metis dropWhile_eq_Nil_conv list.distinct(1))
  ultimately show ?thesis by blast
qed

lemma rnd_range: "0 \<le> rnd s \<and> rnd s \<le> 1"
  by (simp add: rnd_def abs_le_iff)

lemma js_rem_unit:
  assumes "0 < n" "0 \<le> u" "u \<le> 1"
  shows "0 \<le> js_rem (u * n) n \<and> js_rem (u * n) n < n"
proof -
  have eq: "js_rem (u * n) n = n * (u - of_int \<lfloor>u\<rfloor>)"
    using assms by (simp add: js_rem_def js_trunc_def algebra_simps)
  have f1: "0 \<le> u - of_int \<lfloor>u\<rfloor>" by linarith
  have f2: "u - of_int \<lfloor>u\<rfloor> < 1" by linarith
  have lo: "0 \<le> n * (u - of_int \<lfloor>u\<rfloor>)" using assms(1) f1 by simp
  have "n * (u - of_int \<lfloor>u\<rfloor>) < n * 1" using f2 assms(1) by (rule mult_strict_left_mono)
  then show ?thesis using lo eq by simp
qed




lemma percent_range: "0 \<le> q \<Longrightarrow> q \<le> 1 \<Longrightarrow> 0 \<le> q * 100 \<and> q * 100 \<le> (100::real)"
  by simp

section \<open>Facts about drawFrame\<close>

lemma texts_of_append: "texts_of (xs @ ys) = texts_of xs @ texts_of ys"
  by (induction xs rule: texts_of.induct) simp_all

lemma arcs_of_append: "arcs_of (xs @ ys) = arcs_of xs @ arcs_of ys"
  by (induction xs rule: arcs_of.induct) simp_all

lemma texts_of_particle_loop: "texts_of (concat (map (draw_particle w h t) js)) = []"
  by (induction js) (simp_all add: texts_of_append draw_particle_def)

lemma texts_of_background:
  "texts_of (draw_aurora w h t) = []"
  "texts_of (draw_particles w h t) = []"
  "texts_of (draw_waves w h t) = []"
  "texts_of (draw_border w h) = []"
  by (simp_all add: draw_aurora_def draw_particles_def draw_waves_def draw_border_def
        texts_of_append texts_of_particle_loop)

lemma texts_of_title:
  "texts_of (draw_title w h ttl t) = [or_else (trim ttl) (js_lit ''Your animated title'')]"
  by (simp add: draw_title_def)

lemma texts_of_subtitle:
  "texts_of (draw_subtitle w h sub t) = (if trim sub \<noteq> [] then [trim sub] else [])"
  by (simp add: draw_subtitle_def)

lemma particle_bounds:
  assumes "0 < w" "0 < h"
  shows "0 \<le> particle_x w t i \<and> particle_x w t i < w
       \<and> 0 \<le> particle_y h t i \<and> particle_y h t i < h
       \<and> 0.5 \<le> particle_r t i \<and> particle_r t i \<le> 3"
proof -
  have x: "0 \<le> particle_x w t i \<and> particle_x w t i < w"
    unfolding particle_x_def using js_rem_unit[OF assms(1)] rnd_range by blast
  have y: "0 \<le> particle_y h t i \<and> particle_y h t i < h"
    unfolding particle_y_def using js_rem_unit[OF assms(2)] rnd_range by blast
  have r: "0.5 \<le> particle_r t i \<and> particle_r t i \<le> 3"
    unfolding particle_r_def using rnd_range[of "particle_s t i + 99"] by simp
  show ?thesis using x y r by simp
qed

lemma arcs_of_particle_loop:
  "arcs_of (concat (map (draw_particle w h t) js)) =
     map (\<lambda>i. (particle_x w t i, particle_y h t i, particle_r t i)) js"
  by (induction js) (simp_all add: arcs_of_append draw_particle_def)

lemma arcs_of_overlay:
  "arcs_of (draw_title w h ttl t) = []"
  "arcs_of (draw_subtitle w h sub t) = []"
  "arcs_of (draw_border w h) = []"
  by (simp_all add: draw_title_def draw_subtitle_def draw_border_def Let_def)

lemma arcs_of_drawFrame_Particles:
  "arcs_of (drawFrame w h ''Particles'' ttl sub t) =
     map (\<lambda>i. (particle_x w t i, particle_y h t i, particle_r t i)) [0..<300]"
  by (simp add: drawFrame_def draw_particles_def arcs_of_append arcs_of_particle_loop
        arcs_of_overlay)


section \<open>Facts about the component\<close>

lemma find_none: "(\<forall>m\<in>set xs. \<not> P m) \<Longrightarrow> find P xs = None"
  by (simp add: find_None_iff)

lemma progress_step:
  "progress (step c now st) = min (now - startTimeRef st) (sc_totalMs c) / sc_totalMs c * 100"
  by (simp add: step_def Let_def request_frame_def emit_def stop_recorder_def cancel_frame_def
        split: option.splits)

lemma startTimeRef_step: "startTimeRef (step c now st) = startTimeRef st"
  by (simp add: step_def Let_def request_frame_def emit_def stop_recorder_def cancel_frame_def
        split: option.splits)

lemma queue_after_step:
  "frame_queue (step c now (st\<lparr>frame_queue := []\<rparr>)) =
     (if now - startTimeRef st < sc_totalMs c \<and> sc_isRecording c then [(next_handle st, c)]
      else [])"
  by (simp add: step_def Let_def request_frame_def emit_def stop_recorder_def cancel_frame_def
        split: option.splits)

lemma progress_fire:
  "frame_queue st = (n, c) # rest \<Longrightarrow>
   progress (fire_frame now st)
     = min (now - startTimeRef st) (sc_totalMs c) / sc_totalMs c * 100"
  by (simp add: fire_frame_def progress_step)

lemma blob_size_new_Blob: "blob_size (new_Blob parts ty) = sum_list (map blob_size parts)"
  by (simp add: blob_size_def[abs_def] new_Blob_def length_concat comp_def)

lemma chunks_ondataavailable:
  "chunksRef (ondataavailable e st) =
     chunksRef st @ (case e of None \<Rightarrow> [] | Some d \<Rightarrow> if 0 < blob_size d then [d] else [])"
  by (simp add: ondataavailable_def split: option.splits)

text \<open>The recording started from the initial render on \<open>webm_host\<close> at time 0.\<close>

lemma started_queue:
  "frame_queue (startRecording webm_host 0 initial_component) = [(1, initial_step)]"
  by (simp add: startRecording_def Let_def animate_def new_MediaRecorder_def
        request_frame_def emit_def webm_host_def initial_component_def mimeTypes_def
        reset_artifact_def initial_step_def)

lemma started_start: "startTimeRef (startRecording webm_host 0 initial_component) = 0"
  by (simp add: startRecording_def Let_def animate_def new_MediaRecorder_def
        request_frame_def emit_def webm_host_def initial_component_def mimeTypes_def
        reset_artifact_def)

lemma initial_step_total: "sc_totalMs initial_step = 5000"
  by (simp add: initial_step_def)

lemma frame_queue_reset_artifact: "frame_queue (reset_artifact st) = frame_queue st"
  by (simp add: reset_artifact_def emit_def split: option.splits)

lemma blobUrl_startRecording:
  "canvasRef st \<Longrightarrow> \<not> isRecording st \<Longrightarrow> blobUrl (startRecording h now st) = None"
  by (simp add: startRecording_def Let_def animate_def request_frame_def emit_def
        reset_artifact_def split: option.splits)

text \<open>With no artifact present, the render after the click runs no cleanup.\<close>

lemma click_generate_no_artifact:
  assumes "blobUrl st = None"
  shows "click_generate h now st = startRecording h now st"
proof (cases "canvasRef st \<and> \<not> isRecording st")
  case True
  then show ?thesis
    using assms by (simp add: click_generate_def rerender_def blobUrl_startRecording)
next
  case False
  then have "startRecording h now st = st" by (auto simp: startRecording_def)
  then show ?thesis by (simp add: click_generate_def rerender_def)
qed

lemma click_generate_initial:
  "click_generate webm_host 0 initial_component
     = startRecording webm_host 0 initial_component"
  by (rule click_generate_no_artifact) (simp add: initial_component_def)

text \<open>
  The callback requested by \<open>startRecording\<close> carries the \<open>isRecording\<close> of the render it
  was built in, which is false there; so, with no artifact present, its first tick takes
  the completion branch whatever the elapsed time and leaves no callback waiting.
\<close>

lemma started_recording_first_tick:
  assumes "canvasRef st" "\<not> isRecording st" "getContext_2d h" "frame_queue st = []"
    and "blobUrl st = None"
  shows "frame_queue (fire_frame t (click_generate h now st)) = []
       \<and> \<not> isRecording (fire_frame t (click_generate h now st))"
proof -
  let ?c = "\<lparr>sc_drawFrame = drawFrame_of st, sc_totalMs = duration st * 1000,
             sc_isRecording = False\<rparr>"
  have cg: "click_generate h now st = startRecording h now st"
    using assms(5) by (rule click_generate_no_artifact)
  have "\<exists>n. frame_queue (startRecording h now st) = [(n, ?c)]"
    using assms
    by (simp add: startRecording_def Let_def animate_def request_frame_def emit_def
          frame_queue_reset_artifact)
  then obtain n where q: "frame_queue (startRecording h now st) = [(n, ?c)]" by blast
  have ff: "fire_frame t (startRecording h now st)
      = step ?c t ((startRecording h now st)\<lparr>frame_queue := []\<rparr>)"
    by (simp add: fire_frame_def q)
  have "frame_queue (fire_frame t (startRecording h now st)) = []"
    unfolding ff queue_after_step by simp
  moreover have "\<not> isRecording (fire_frame t (startRecording h now st))"
    unfolding ff by (simp add: step_def Let_def)
  ultimately show ?thesis unfolding cg by simp
qed

text \<open>
  With an artifact present, \<open>startRecording\<close> sets \<open>blobUrl\<close> to null, so the cleanup of the
  old render runs after it: the frame just requested is cancelled and the recorder just
  started is stopped, while \<open>isRecording\<close> stays set.
\<close>

lemma restart_with_artifact:
  assumes "canvasRef st" "\<not> isRecording st" "getContext_2d h" "frame_queue st = []"
    and "blobUrl st = Some u" and "0 < next_handle st"
  shows "frame_queue (click_generate h now st) = []
       \<and> isRecording (click_generate h now st)
       \<and> RecorderStop \<in> set (effects (click_generate h now st))"
  using assms
  by (simp add: click_generate_def rerender_def effect_cleanup_def startRecording_def Let_def
        animate_def request_frame_def emit_def reset_artifact_def cancel_frame_def
        stop_recorder_def new_MediaRecorder_def)

section \<open>Capture start\<close>

text \<open>
  Claim C1 says that, when no type of the preference list is supported, starting a capture
  fails with an UnsupportedFormat condition and the session stays idle. On a host that
  supports none of the four types, \<open>startRecording\<close> from the initial render constructs
  the recorder with no options and sets \<open>isRecording\<close>.
\<close>

theorem startRecording_no_codec_reaches_recording:
  "find (isTypeSupported no_codec_host) mimeTypes = None
   \<and> isRecording (startRecording no_codec_host 0 initial_component)
   \<and> map_option mr_options (mediaRecorderRef (startRecording no_codec_host 0 initial_component))
       = Some None"
  by (simp add: startRecording_def Let_def animate_def new_MediaRecorder_def
        request_frame_def emit_def no_codec_host_def initial_component_def mimeTypes_def
        reset_artifact_def)

text \<open>
  Claim C1, amended: if no type of the preference list is supported, \<open>startRecording\<close> (on
  a mounted canvas, while not recording) constructs the recorder without options, that is
  with the host's default format, and the session becomes recording; there is no
  UnsupportedFormat condition.
\<close>

theorem startRecording_without_supported_type:
  assumes "canvasRef st" and "\<not> isRecording st"
    and "\<forall>m\<in>set mimeTypes. \<not> isTypeSupported h m"
  shows "isRecording (startRecording h now st)
       \<and> (\<exists>mr. mediaRecorderRef (startRecording h now st) = Some mr \<and> mr_options mr = None)
       \<and> NewMediaRecorder None \<in> set (effects (startRecording h now st))"
proof -
  have f: "find (isTypeSupported h) mimeTypes = None" using assms(3) by (rule find_none)
  show ?thesis using assms(1,2)
    by (simp add: startRecording_def f Let_def animate_def new_MediaRecorder_def
          request_frame_def emit_def)
qed

theorem startRecording_without_supported_type_witness:
  "isRecording (startRecording no_codec_host 10 (initial_component\<lparr>blobUrl := Some 3\<rparr>))
   \<and> (\<exists>mr. mediaRecorderRef
              (startRecording no_codec_host 10 (initial_component\<lparr>blobUrl := Some 3\<rparr>))
            = Some mr \<and> mr_options mr = None)
   \<and> NewMediaRecorder None
       \<in> set (effects (startRecording no_codec_host 10 (initial_component\<lparr>blobUrl := Some 3\<rparr>)))"
proof -
  have a: "canvasRef (initial_component\<lparr>blobUrl := Some 3\<rparr>)"
    by (simp add: initial_component_def)
  have b: "\<not> isRecording (initial_component\<lparr>blobUrl := Some 3\<rparr>)"
    by (simp add: initial_component_def)
  have c: "\<forall>m\<in>set mimeTypes. \<not> isTypeSupported no_codec_host m"
    by (simp add: no_codec_host_def)
  show ?thesis by (rule startRecording_without_supported_type[OF a b c])
qed

text \<open>
  Claim C6: \<open>startRecording\<close> called while \<open>isRecording\<close> holds returns the component as it
  was: state, progress, artifact handle and size, refs, waiting callbacks and the trace of
  host calls are all unchanged.
\<close>

theorem startRecording_while_recording:
  "isRecording st \<Longrightarrow> startRecording h now st = st"
  by (simp add: startRecording_def)

theorem startRecording_while_recording_witness:
  "startRecording webm_host 7 (initial_component\<lparr>isRecording := True, blobUrl := Some 3\<rparr>)
     = initial_component\<lparr>isRecording := True, blobUrl := Some 3\<rparr>"
  by (rule startRecording_while_recording) simp

section \<open>Progress\<close>

text \<open>
  Claim C2 says the progress reported after a tick is \<open>min (now - s) total / total\<close>, a
  fraction in [0, 1]. In the recording started at time 0 with a total of 5000 ms, the tick
  at 2500 ms reports 50, while the claimed fraction is one half.
\<close>

theorem step_progress_not_fraction:
  "progress (fire_frame 2500 (startRecording webm_host 0 initial_component)) = 50
   \<and> min (2500 - startTimeRef (startRecording webm_host 0 initial_component))
         (sc_totalMs initial_step) / sc_totalMs initial_step = 1 / 2"
  by (simp add: progress_fire[OF started_queue] started_start initial_step_total)

text \<open>
  Claim C2, amended: after a tick at \<open>now \<ge> s\<close> of a recording with start timestamp \<open>s\<close>
  and positive total duration, the reported progress equals
  \<open>min (now - s) total / total * 100\<close>, a percentage lying in [0, 100].
\<close>

theorem step_progress_percent:
  assumes "0 < sc_totalMs c" and "startTimeRef st \<le> now"
  shows "progress (step c now st)
           = min (now - startTimeRef st) (sc_totalMs c) / sc_totalMs c * 100
       \<and> 0 \<le> progress (step c now st) \<and> progress (step c now st) \<le> 100"
proof -
  let ?m = "min (now - startTimeRef st) (sc_totalMs c)"
  have m0: "0 \<le> ?m" using assms by simp
  have m1: "?m \<le> sc_totalMs c" by simp
  have "0 \<le> ?m / sc_totalMs c" using m0 assms(1) by simp
  moreover have "?m / sc_totalMs c \<le> 1" using m1 assms(1) by (simp add: divide_le_eq_1)
  ultimately have "0 \<le> ?m / sc_totalMs c * 100 \<and> ?m / sc_totalMs c * 100 \<le> 100"
    by (rule percent_range)
  then show ?thesis by (simp only: progress_step simp_thms)
qed

theorem step_progress_percent_witness:
  "progress (step initial_step 1250 (initial_component\<lparr>startTimeRef := 250\<rparr>)) = 20
   \<and> 0 \<le> progress (step initial_step 1250 (initial_component\<lparr>startTimeRef := 250\<rparr>))
   \<and> progress (step initial_step 1250 (initial_component\<lparr>startTimeRef := 250\<rparr>)) \<le> 100"
proof -
  have a: "0 < sc_totalMs initial_step" by (simp add: initial_step_def)
  have b: "startTimeRef (initial_component\<lparr>startTimeRef := 250\<rparr>) \<le> 1250" by simp
  show ?thesis using step_progress_percent[OF a b] by (simp add: initial_step_def)
qed

text \<open>
  Claim C4 says that the reported progress is non-decreasing over the ticks of one
  recording and is full at the tick that triggers completion, the tick whose elapsed time
  first reaches the total duration. The code completes at its first tick instead: a five
  second recording started from the initial render at time 0, with frames offered at 16,
  33 and 6000 ms, runs a single tick. At 16 ms, before the total duration has elapsed, it
  reports 0.32 (percent), stops the recorder, clears \<open>isRecording\<close> and requests no
  further frame.
\<close>

theorem first_tick_completes_recording:
  "map progress (run_frames [16, 33, 6000] (click_generate webm_host 0 initial_component))
     = [8 / 25]
   \<and> 16 - startTimeRef (click_generate webm_host 0 initial_component)
       < duration initial_component * 1000
   \<and> frame_queue (fire_frame 16 (click_generate webm_host 0 initial_component)) = []
   \<and> \<not> isRecording (fire_frame 16 (click_generate webm_host 0 initial_component))
   \<and> RecorderStop
       \<in> set (effects (fire_frame 16 (click_generate webm_host 0 initial_component)))"
proof -
  let ?st = "startRecording webm_host 0 initial_component"
  have ff: "fire_frame 16 ?st = step initial_step 16 (?st\<lparr>frame_queue := []\<rparr>)"
    by (simp add: fire_frame_def started_queue)
  have q: "frame_queue (fire_frame 16 ?st) = []"
    unfolding ff queue_after_step by (simp add: initial_step_def)
  have p: "progress (fire_frame 16 ?st) = 8 / 25"
    by (simp add: progress_fire[OF started_queue] started_start initial_step_total)
  have r: "map progress (run_frames [16, 33, 6000] ?st) = [8 / 25]"
    using q p by (simp add: started_queue)
  have dur: "duration initial_component * 1000 = 5000"
    by (simp add: initial_component_def)
  have d: "16 - startTimeRef ?st < duration initial_component * 1000"
    unfolding dur started_start by simp
  have i: "\<not> isRecording (fire_frame 16 ?st)"
    unfolding ff by (simp add: step_def Let_def initial_step_def)
  have m: "mediaRecorderRef ?st =
      Some \<lparr>mr_options = Some \<lparr>mimeType = ''video/webm;codecs=vp9'',
                                videoBitsPerSecond = 6000000\<rparr>,
            mr_mimeType = ''video/webm;codecs=vp9'', mr_active = True\<rparr>"
    by (simp add: startRecording_def Let_def animate_def new_MediaRecorder_def
          request_frame_def emit_def webm_host_def initial_component_def mimeTypes_def
          reset_artifact_def)
  have s: "RecorderStop \<in> set (effects (fire_frame 16 ?st))"
    unfolding ff
    by (simp add: step_def Let_def initial_step_def stop_recorder_def cancel_frame_def
          emit_def m split: option.splits)
  show ?thesis unfolding click_generate_initial using r d q i s by simp
qed

section \<open>Chunks and the artifact\<close>

text \<open>
  Claim C8: over any sequence of chunk events, a chunk of size zero (or a missing
  \<open>e.data\<close>) is dropped and a chunk of positive size is appended, so the buffer grows by
  exactly the positive-size chunks in delivery order; from an empty buffer it holds
  exactly those.
\<close>

theorem deliver_chunks:
  "chunksRef (deliver es st) = chunksRef st @ [d. Some d \<leftarrow> es, 0 < blob_size d]
   \<and> chunksRef (deliver es (st\<lparr>chunksRef := []\<rparr>)) = [d. Some d \<leftarrow> es, 0 < blob_size d]"
proof -
  have "chunksRef (deliver es s) = chunksRef s @ [d. Some d \<leftarrow> es, 0 < blob_size d]" for s
    by (induction es arbitrary: s) (simp_all add: chunks_ondataavailable split: option.splits)
  then show ?thesis by simp
qed

theorem deliver_chunks_witness:
  "chunksRef (deliver [Some chunk_a, Some chunk_empty, None, Some chunk_b, Some chunk_a]
                initial_component)
     = [chunk_a, chunk_b, chunk_a]"
  using deliver_chunks[of "[Some chunk_a, Some chunk_empty, None, Some chunk_b, Some chunk_a]"
      initial_component]
  by (simp add: initial_component_def chunk_a_def chunk_b_def chunk_empty_def blob_size_def)

text \<open>
  Claim C5: \<open>onstop\<close> yields an artifact whose size is the sum of the sizes of the buffered
  chunks: \<open>blobSize\<close> is that sum, \<open>blobUrl\<close> is the fresh handle, and the blob handed to
  \<open>URL.createObjectURL\<close> is the concatenation of the chunks. With an empty buffer it
  still yields a handle, and the size is zero.
\<close>

theorem onstop_artifact_size:
  "blobSize (onstop mr st) = sum_list (map blob_size (chunksRef st))
   \<and> blobUrl (onstop mr st) = Some (next_handle st)
   \<and> (\<exists>b. CreateObjectURL (next_handle st) b \<in> set (effects (onstop mr st))
          \<and> blob_bytes b = concat (map blob_bytes (chunksRef st)))
   \<and> blobSize (onstop mr (st\<lparr>chunksRef := []\<rparr>)) = 0
   \<and> blobUrl (onstop mr (st\<lparr>chunksRef := []\<rparr>)) = Some (next_handle st)"
proof -
  let ?ty = "if mr_mimeType mr \<noteq> [] then mr_mimeType mr else ''video/webm''"
  have size: "\<And>s. blobSize (onstop mr s) = sum_list (map blob_size (chunksRef s))"
    by (simp add: onstop_def Let_def blob_size_new_Blob emit_def)
  have url: "\<And>s. blobUrl (onstop mr s) = Some (next_handle s)"
    by (simp add: onstop_def Let_def emit_def)
  have "CreateObjectURL (next_handle st) (new_Blob (chunksRef st) ?ty)
          \<in> set (effects (onstop mr st))"
    by (simp add: onstop_def Let_def emit_def)
  moreover have "blob_bytes (new_Blob (chunksRef st) ?ty)
      = concat (map blob_bytes (chunksRef st))"
    by (simp add: new_Blob_def)
  ultimately have art: "\<exists>b. CreateObjectURL (next_handle st) b \<in> set (effects (onstop mr st))
          \<and> blob_bytes b = concat (map blob_bytes (chunksRef st))" by blast
  have e: "blobSize (onstop mr (st\<lparr>chunksRef := []\<rparr>)) = 0" by (simp add: size)
  have u: "blobUrl (onstop mr (st\<lparr>chunksRef := []\<rparr>)) = Some (next_handle st)"
    by (simp add: url)
  show ?thesis using size[of st] url[of st] art e u by blast
qed

theorem onstop_artifact_size_witness:
  "blobSize (onstop (new_MediaRecorder webm_host None)
               (initial_component\<lparr>chunksRef := [chunk_a, chunk_b, chunk_a]\<rparr>)) = 10
   \<and> blobSize (onstop (new_MediaRecorder webm_host None) initial_component) = 0
   \<and> blobUrl (onstop (new_MediaRecorder webm_host None) initial_component) = Some 1"
  using onstop_artifact_size[of "new_MediaRecorder webm_host None"
          "initial_component\<lparr>chunksRef := [chunk_a, chunk_b, chunk_a]\<rparr>"]
        onstop_artifact_size[of "new_MediaRecorder webm_host None" initial_component]
  by (simp add: initial_component_def chunk_a_def chunk_b_def blob_size_def)

section \<open>Rendering\<close>

text \<open>
  Claim C7: for every time and every configuration, the title drawn is the placeholder
  when the configured title is empty or consists of white space only, and the trimmed
  title otherwise; the subtitle is drawn, trimmed, after it, and not at all when it is
  empty or consists of white space only. These are the only texts of the frame.
\<close>

theorem drawFrame_texts:
  "texts_of (drawFrame w h bg ttl sub t) =
     (if (\<forall>c\<in>set ttl. is_white c) then js_lit ''Your animated title'' else trim ttl)
     # (if (\<forall>c\<in>set sub. is_white c) then [] else [trim sub])"
  by (simp add: drawFrame_def texts_of_append texts_of_background texts_of_title
        texts_of_subtitle or_else_def trim_empty_iff)

theorem drawFrame_texts_witness:
  "texts_of (drawFrame 1280 720 ''Aurora'' (js_lit '' Hello '') (js_lit ''  '') 0)
     = [js_lit ''Hello'']
   \<and> texts_of (drawFrame 1280 720 ''Waves'' [0x2003, 0x20] (js_lit ''by me'') 0)
       = [js_lit ''Your animated title'', js_lit ''by me'']"
  using drawFrame_texts[of 1280 720 "''Aurora''" "js_lit '' Hello ''" "js_lit ''  ''" 0]
        drawFrame_texts[of 1280 720 "''Waves''" "[0x2003, 0x20]" "js_lit ''by me''" 0]
  by (simp add: js_lit_def is_white_def trim_def)

text \<open>
  Claim C9: the frame drawn at a time \<open>t\<close> depends only on the title, the subtitle, the
  background style, the width and the height: two renders that agree on these draw the
  same sequence of commands with the same parameters, whatever the rest of their state.
\<close>

theorem drawFrame_deterministic:
  assumes "prompt st = prompt st'" and "subtitle st = subtitle st'"
    and "bgStyle st = bgStyle st'" and "width st = width st'" and "height st = height st'"
  shows "drawFrame_of st t = drawFrame_of st' t"
  using assms by (simp add: drawFrame_of_def)

theorem drawFrame_deterministic_witness:
  "drawFrame_of initial_component 1234
     = drawFrame_of (initial_component\<lparr>fps := 60, duration := 10, isRecording := True,
                       progress := 40, blobUrl := Some 3, resolutionKey := R720p\<rparr>) 1234"
  by (rule drawFrame_deterministic) (simp_all add: width_def height_def initial_component_def)

text \<open>
  Claim C10: for every time and every positive width and height, the Particles background
  draws 300 arcs, each with its centre inside the surface (\<open>0 \<le> x < width\<close>,
  \<open>0 \<le> y < height\<close>) and a radius in [0.5, 3].
\<close>

theorem particles_within_surface:
  assumes "0 < w" and "0 < h"
  shows "length (arcs_of (drawFrame w h ''Particles'' ttl sub t)) = 300
       \<and> (\<forall>(x, y, r) \<in> set (arcs_of (drawFrame w h ''Particles'' ttl sub t)).
            0 \<le> x \<and> x < w \<and> 0 \<le> y \<and> y < h \<and> 0.5 \<le> r \<and> r \<le> 3)"
  using particle_bounds[OF assms] by (auto simp: arcs_of_drawFrame_Particles)

theorem particles_within_surface_witness:
  "length (arcs_of (drawFrame 1280 720 ''Particles'' (js_lit ''Hello'') [] 0)) = 300
   \<and> 0 \<le> particle_x 1280 0 7 \<and> particle_x 1280 0 7 < 1280
   \<and> 0 \<le> particle_y 720 0 7 \<and> particle_y 720 0 7 < 720
   \<and> 0.5 \<le> particle_r 0 7 \<and> particle_r 0 7 \<le> 3"
proof -
  let ?arcs = "arcs_of (drawFrame 1280 720 ''Particles'' (js_lit ''Hello'') [] 0)"
  have a: "(0::real) < 1280" and b: "(0::real) < 720" by simp_all
  have m: "(particle_x 1280 0 7, particle_y 720 0 7, particle_r 0 7) \<in> set ?arcs"
    unfolding arcs_of_drawFrame_Particles set_map
    by (rule image_eqI[where x = 7]) simp_all
  show ?thesis
    using particles_within_surface[OF a b, of "js_lit ''Hello''" "[]" 0] m by blast
qed


end
